theory Spec2Isabelle
  imports Main
begin

section \<open>Strings and numbers\<close>

text \<open>
  A Python \<^verbatim>\<open>str\<close> is modelled as a \<^typ>\<open>string\<close> whose characters are the code points
  below 256.  \<^verbatim>\<open>str.strip()\<close> removes the characters for which \<^verbatim>\<open>str.isspace\<close> holds
  from both ends; below 256 these are 0x09..0x0D, 0x1C..0x20, 0x85 and 0xA0.
\<close>

definition es_espacio :: "char \<Rightarrow> bool" where
  "es_espacio c =
     (let n = (of_char c :: nat)
      in (9 \<le> n \<and> n \<le> 13) \<or> (28 \<le> n \<and> n \<le> 32) \<or> n = 133 \<or> n = 160)"

definition strip :: "string \<Rightarrow> string" where
  "strip s = rev (dropWhile es_espacio (rev (dropWhile es_espacio s)))"

text \<open>\<^verbatim>\<open>str(n)\<close> for an integer: the decimal digits, with a minus sign when negative.\<close>

definition digito :: "nat \<Rightarrow> char" where
  "digito d = char_of (48 + d)"

fun str_nat :: "nat \<Rightarrow> string" where
  "str_nat n = (if n < 10 then [digito n] else str_nat (n div 10) @ [digito (n mod 10)])"

declare str_nat.simps [simp del]

definition str_int :: "int \<Rightarrow> string" where
  "str_int i = (if i < 0 then CHR ''-'' # str_nat (nat (- i)) else str_nat (nat i))"

text \<open>
  \<^verbatim>\<open>int(s)\<close> on a string of code points below 256: surrounding whitespace is dropped,
  then come an optional sign and decimal digits, where single underscores may separate
  digits.  \<open>None\<close> is the \<^verbatim>\<open>ValueError\<close>.
\<close>

definition es_digito :: "char \<Rightarrow> bool" where
  "es_digito c = (48 \<le> (of_char c :: nat) \<and> (of_char c :: nat) \<le> 57)"



section \<open>Exceptions\<close>

text \<open>
  The exceptions the two programs raise or let through, each with the text that
  \<^verbatim>\<open>str(e)\<close> gives; a \<^verbatim>\<open>CalledProcessError\<close> also carries the captured
  \<^verbatim>\<open>stderr\<close>.  All of them are subclasses of \<^verbatim>\<open>Exception\<close>.
\<close>

datatype exn =
    ValueError string
  | RuntimeError string
  | CalledProcessError string string
  | OSError string

fun str_exn :: "exn \<Rightarrow> string" where
  "str_exn (ValueError m) = m"
| "str_exn (RuntimeError m) = m"
| "str_exn (CalledProcessError m err) = m"
| "str_exn (OSError m) = m"

text \<open>Sequencing of steps that may raise: the first exception ends the sequence.\<close>

definition luego :: "exn + 'a \<Rightarrow> ('a \<Rightarrow> exn + 'b) \<Rightarrow> exn + 'b" where
  "luego m f = (case m of Inl e \<Rightarrow> Inl e | Inr x \<Rightarrow> f x)"

section \<open>appy.py: EventoConfig\<close>

text \<open>
  \<^verbatim>\<open>sources\<close> is a list of dictionaries \<^verbatim>\<open>{'source': 'url', 'valid': False}\<close>.
\<close>

record fuente =
  source :: string
  valid :: bool

record EventoConfig =
  nombre :: string
  titulo :: string
  puerto :: int
  tracker :: string
  sources :: "fuente list"
  host :: string
  bitrate :: int
  token :: string
  content_id :: string
  docker_active :: string

text \<open>
  The character classes of the two regular expressions are ASCII ranges.  With
  \<^verbatim>\<open>re.match\<close>, the final \<^verbatim>\<open>$\<close> matches at the end of the string and also just before
  a newline that ends the string.
\<close>

definition es_alnum :: "char \<Rightarrow> bool" where
  "es_alnum c =
     (let n = (of_char c :: nat)
      in (97 \<le> n \<and> n \<le> 122) \<or> (65 \<le> n \<and> n \<le> 90) \<or> (48 \<le> n \<and> n \<le> 57))"

definition sin_salto_final :: "string \<Rightarrow> string" where
  "sin_salto_final s = (if s \<noteq> [] \<and> last s = CHR 0x0A then butlast s else s)"

text \<open>\<^verbatim>\<open>re.match(r'^[a-zA-Z0-9_-]+$', s)\<close>\<close>

definition coincide_nombre :: "string \<Rightarrow> bool" where
  "coincide_nombre s =
     (sin_salto_final s \<noteq> [] \<and>
      (\<forall>c \<in> set (sin_salto_final s). es_alnum c \<or> c = CHR ''_'' \<or> c = CHR ''-''))"

text \<open>
  \<^verbatim>\<open>_es_dominio_valido\<close>: labels separated by dots, each label
  \<^verbatim>\<open>[a-zA-Z0-9]([a-zA-Z0-9-]{0,61}[a-zA-Z0-9])?\<close>.
\<close>

fun partir :: "char \<Rightarrow> string \<Rightarrow> string list" where
  "partir sep [] = [[]]"
| "partir sep (c # cs) =
     (if c = sep then [] # partir sep cs
      else (case partir sep cs of [] \<Rightarrow> [[c]] | p # ps \<Rightarrow> (c # p) # ps))"

definition es_etiqueta :: "string \<Rightarrow> bool" where
  "es_etiqueta l =
     (l \<noteq> [] \<and> length l \<le> 63 \<and> es_alnum (hd l) \<and> es_alnum (last l) \<and>
      (\<forall>c \<in> set l. es_alnum c \<or> c = CHR ''-''))"

definition es_dominio_valido :: "string \<Rightarrow> bool" where
  "es_dominio_valido dominio =
     list_all es_etiqueta (partir (CHR ''.'') (sin_salto_final dominio))"

text \<open>The messages of \<^verbatim>\<open>validar\<close>; 0xE1, 0xED and 0xFA are the accented a, i and u.\<close>

definition msg_nombre :: string where
  "msg_nombre = ''Nombre inv'' @ [CHR 0xE1] @ ''lido: use solo letras, n'' @ [CHR 0xFA] @
     ''meros, guiones y guiones bajos''"

definition msg_puerto :: string where
  "msg_puerto = ''Puerto inv'' @ [CHR 0xE1] @ ''lido: debe estar entre 1024 y 65535''"

definition msg_host :: string where
  "msg_host = ''Host inv'' @ [CHR 0xE1] @ ''lido: debe ser una IP v'' @ [CHR 0xE1] @
     ''lida o un nombre de dominio''"

definition msg_bitrate :: string where
  "msg_bitrate = ''Bitrate inv'' @ [CHR 0xE1] @ ''lido''"

definition msg_titulo :: string where
  "msg_titulo = ''El t'' @ [CHR 0xED] @ ''tulo no puede estar vac'' @ [CHR 0xED] @ ''o''"

definition msg_fuentes :: string where
  "msg_fuentes = ''Debe ingresar al menos una fuente''"

text \<open>
  \<^verbatim>\<open>validar\<close>.  \<^verbatim>\<open>_es_ip_valida\<close> asks the library \<^verbatim>\<open>ipaddress.ip_address\<close>, which is
  the parameter \<open>es_ip_valida\<close>.  The list \<^verbatim>\<open>errores\<close> is threaded through the six
  \<^verbatim>\<open>if\<close> statements in the order of the source.
\<close>

definition validar :: "(string \<Rightarrow> bool) \<Rightarrow> EventoConfig \<Rightarrow> string list" where
  "validar es_ip_valida c =
     (let errores = [];
          errores = (if nombre c = [] \<or> \<not> coincide_nombre (nombre c)
                     then errores @ [msg_nombre] else errores);
          errores = (if \<not> (1024 \<le> puerto c \<and> puerto c \<le> 65535)
                     then errores @ [msg_puerto] else errores);
          errores = (if \<not> es_ip_valida (host c) \<and> \<not> es_dominio_valido (host c)
                     then errores @ [msg_host] else errores);
          errores = (if \<not> (0 \<le> bitrate c \<and> bitrate c \<le> 10000000)
                     then errores @ [msg_bitrate] else errores);
          errores = (if strip (titulo c) = []
                     then errores @ [msg_titulo] else errores);
          errores = (if sources c = [] \<or> (\<forall>s \<in> set (sources c). strip (source s) = [])
                     then errores @ [msg_fuentes] else errores)
      in errores)"

section \<open>The JSON text of the sources column\<close>

text \<open>
  \<^verbatim>\<open>json.dumps\<close> with its default options on a list of \<^verbatim>\<open>{'source': ..., 'valid': ...}\<close>
  dictionaries: items are separated by a comma and a space, keys from values by a colon
  and a space, and a string is written between double quotes with every character
  outside the printable ASCII range, the double quote and the backslash escaped.
  0x22 is the double quote and 0x5C the backslash.
\<close>

definition comilla :: char where
  "comilla = CHR 0x22"

definition barra :: char where
  "barra = CHR 0x5C"

definition hexdig :: "nat \<Rightarrow> char" where
  "hexdig d = (if d < 10 then char_of (48 + d) else char_of (87 + d))"

definition esc_json :: "char \<Rightarrow> string" where
  "esc_json c =
     (let n = (of_char c :: nat) in
      if c = comilla then [barra, comilla]
      else if c = barra then [barra, barra]
      else if 32 \<le> n \<and> n \<le> 126 then [c]
      else if n = 8 then [barra, CHR ''b'']
      else if n = 12 then [barra, CHR ''f'']
      else if n = 10 then [barra, CHR ''n'']
      else if n = 13 then [barra, CHR ''r'']
      else if n = 9 then [barra, CHR ''t'']
      else [barra, CHR ''u'', CHR ''0'', CHR ''0'', hexdig (n div 16), hexdig (n mod 16)])"

definition json_str :: "string \<Rightarrow> string" where
  "json_str s = comilla # concat (map esc_json s) @ [comilla]"

definition json_obj :: "fuente \<Rightarrow> string" where
  "json_obj f =
     ''{'' @ json_str ''source'' @ '': '' @ json_str (source f) @ '', '' @
     json_str ''valid'' @ '': '' @ (if valid f then ''true'' else ''false'') @ ''}''"

fun json_dumps :: "fuente list \<Rightarrow> string" where
  "json_dumps [] = ''[]''"
| "json_dumps (f # fs) =
     ''['' @ json_obj f @ concat (map (\<lambda>g. '', '' @ json_obj g) fs) @ '']''"

text \<open>
  \<^verbatim>\<open>json.loads\<close> on the sources column.  The decoder reads the texts that
  \<^verbatim>\<open>json.dumps\<close> writes for a list of sources, with every escape that a JSON string may
  hold for a code point below 256; \<open>None\<close> is the \<^verbatim>\<open>JSONDecodeError\<close>.  A text of
  any other layout or shape is outside the data model and is decoded as \<open>None\<close>.
\<close>

definition hexval :: "char \<Rightarrow> nat option" where
  "hexval c =
     (let n = (of_char c :: nat) in
      if 48 \<le> n \<and> n \<le> 57 then Some (n - 48)
      else if 97 \<le> n \<and> n \<le> 102 then Some (n - 87)
      else if 65 \<le> n \<and> n \<le> 70 then Some (n - 55)
      else None)"

definition escape_simple :: "char \<Rightarrow> char option" where
  "escape_simple e =
     (if e = comilla then Some comilla
      else if e = barra then Some barra
      else if e = CHR ''/'' then Some (CHR ''/'')
      else if e = CHR ''b'' then Some (CHR 0x08)
      else if e = CHR ''f'' then Some (CHR 0x0C)
      else if e = CHR ''n'' then Some (CHR 0x0A)
      else if e = CHR ''r'' then Some (CHR 0x0D)
      else if e = CHR ''t'' then Some (CHR 0x09)
      else None)"

definition hex4 :: "char \<Rightarrow> char \<Rightarrow> char \<Rightarrow> char \<Rightarrow> nat option" where
  "hex4 a b c d =
     (case (hexval a, hexval b, hexval c, hexval d) of
        (Some x, Some y, Some z, Some w) \<Rightarrow> Some (4096 * x + 256 * y + 16 * z + w)
      | _ \<Rightarrow> None)"

text \<open>The characters of a string after its opening quote, and the text after its closing quote.\<close>

fun leer_cadena :: "string \<Rightarrow> (string \<times> string) option" where
  "leer_cadena [] = None"
| "leer_cadena (c # cs) =
     (if c = comilla then Some ([], cs)
      else if c = barra then
        (case cs of
           [] \<Rightarrow> None
         | e # r \<Rightarrow>
             if e = CHR ''u'' then
               (case r of
                  a # b # c' # d # r' \<Rightarrow>
                    (case hex4 a b c' d of
                       None \<Rightarrow> None
                     | Some n \<Rightarrow>
                         if n < 256 then
                           (case leer_cadena r' of
                              None \<Rightarrow> None
                            | Some (s, t) \<Rightarrow> Some (char_of n # s, t))
                         else None)
                | _ \<Rightarrow> None)
             else
               (case escape_simple e of
                  None \<Rightarrow> None
                | Some x \<Rightarrow>
                    (case leer_cadena r of
                       None \<Rightarrow> None
                     | Some (s, t) \<Rightarrow> Some (x # s, t))))
      else if (of_char c :: nat) < 32 then None
      else (case leer_cadena cs of
              None \<Rightarrow> None
            | Some (s, t) \<Rightarrow> Some (c # s, t)))"

definition esperar :: "string \<Rightarrow> string \<Rightarrow> string option" where
  "esperar lit s = (if take (length lit) s = lit then Some (drop (length lit) s) else None)"

definition leer_bool :: "string \<Rightarrow> (bool \<times> string) option" where
  "leer_bool s =
     (case esperar ''true'' s of
        Some r \<Rightarrow> Some (True, r)
      | None \<Rightarrow> (case esperar ''false'' s of Some r \<Rightarrow> Some (False, r) | None \<Rightarrow> None))"

definition leer_objeto :: "string \<Rightarrow> (fuente \<times> string) option" where
  "leer_objeto s =
     (case esperar (''{'' @ json_str ''source'' @ '': '' @ [comilla]) s of
        None \<Rightarrow> None
      | Some s1 \<Rightarrow>
          (case leer_cadena s1 of
             None \<Rightarrow> None
           | Some (u, s2) \<Rightarrow>
               (case esperar ('', '' @ json_str ''valid'' @ '': '') s2 of
                  None \<Rightarrow> None
                | Some s3 \<Rightarrow>
                    (case leer_bool s3 of
                       None \<Rightarrow> None
                     | Some (b, s4) \<Rightarrow>
                         (case esperar ''}'' s4 of
                            None \<Rightarrow> None
                          | Some s5 \<Rightarrow> Some (\<lparr>source = u, valid = b\<rparr>, s5))))))"

lemma leer_cadena_resto: "leer_cadena s = Some (x, r) \<Longrightarrow> length r < length s"
proof (induction s arbitrary: x r rule: leer_cadena.induct)
  case 1
  then show ?case by simp
next
  case (2 c cs)
  then show ?case
    by (fastforce split: if_splits list.splits option.splits)
qed

lemma esperar_resto: "esperar lit s = Some r \<Longrightarrow> length r \<le> length s"
  by (auto simp: esperar_def split: if_splits)

lemma leer_objeto_resto: "leer_objeto s = Some (f, r) \<Longrightarrow> length r < length s"
  unfolding leer_objeto_def leer_bool_def
  by (auto split: option.splits dest!: leer_cadena_resto esperar_resto)

text \<open>The items after the first one, up to the closing bracket.\<close>

function leer_resto :: "string \<Rightarrow> fuente list option" where
  "leer_resto s =
     (if s = '']'' then Some []
      else (case esperar '', '' s of
              None \<Rightarrow> None
            | Some r \<Rightarrow>
                (case leer_objeto r of
                   None \<Rightarrow> None
                 | Some (f, r') \<Rightarrow> map_option ((#) f) (leer_resto r'))))"
  by pat_completeness auto
termination
proof (relation "measure length")
  show "wf (measure length)" by simp
next
  fix s r x f r'
  assume "esperar '', '' s = Some r" "leer_objeto r = Some x" "(f, r') = x"
  then show "(r', s) \<in> measure length"
    using leer_objeto_resto [of r f r'] esperar_resto [of "'', ''" s r] by simp
qed

definition json_loads :: "string \<Rightarrow> fuente list option" where
  "json_loads s =
     (case esperar ''['' s of
        None \<Rightarrow> None
      | Some r \<Rightarrow>
          if r = '']'' then Some []
          else (case leer_objeto r of
                  None \<Rightarrow> None
                | Some (f, r') \<Rightarrow> map_option ((#) f) (leer_resto r')))"

section \<open>appy.py: EventoManager, the CSV store\<close>

text \<open>
  The file \<^verbatim>\<open>eventos.csv\<close> as the \<^verbatim>\<open>csv\<close> module presents it: the header
  \<^verbatim>\<open>cabeceras\<close> and then rows of ten cells, which is what every writer of the two
  programs produces.  A row that \<^verbatim>\<open>csv.DictReader\<close> yields is a dictionary with the ten
  column names as keys; it is the record \<open>evento\<close>, whose \<^verbatim>\<open>sources\<close> value is the JSON
  text in the file (\<open>fila\<close>), the decoded list after \<^verbatim>\<open>listar_eventos\<close>, or either of
  the two while \<^verbatim>\<open>actualizar_evento\<close> runs (\<open>campo\<close>).  The columns that share
  their name with a field of \<open>EventoConfig\<close> carry the suffix \<open>_col\<close>.
\<close>

record 's evento =
  name :: string
  title :: string
  port :: string
  service_access_token :: string
  tracker_col :: string
  sources_col :: 's
  host_col :: string
  bitrate_col :: string
  content_id_col :: string
  docker_active_col :: string

datatype campo = Lista "fuente list" | Texto string

type_synonym fila = "string evento"

definition con_sources :: "'a evento \<Rightarrow> 'b \<Rightarrow> 'b evento" where
  "con_sources e v =
     \<lparr>name = name e, title = title e, port = port e,
      service_access_token = service_access_token e, tracker_col = tracker_col e,
      sources_col = v, host_col = host_col e, bitrate_col = bitrate_col e,
      content_id_col = content_id_col e, docker_active_col = docker_active_col e\<rparr>"

text \<open>
  The state of the store: the rows of the file, and the exception that \<^verbatim>\<open>open\<close> raises
  when the file cannot be opened.
\<close>

record almacen =
  filas :: "fila list"
  error_apertura :: "exn option"

definition abrir_csv :: "almacen \<Rightarrow> exn + fila list" where
  "abrir_csv st = (case error_apertura st of Some e \<Rightarrow> Inl e | None \<Rightarrow> Inr (filas st))"

definition leer_sources :: "string \<Rightarrow> fuente list" where
  "leer_sources texto =
     (if texto \<noteq> [] then
        (case json_loads texto of Some l \<Rightarrow> l | None \<Rightarrow> [])
      else [])"

definition listar_eventos :: "almacen \<Rightarrow> exn + fuente list evento list" where
  "listar_eventos st =
     luego (abrir_csv st)
       (\<lambda>rows. Inr (map (\<lambda>row. con_sources row (leer_sources (sources_col row))) rows))"

definition fila_de_config :: "EventoConfig \<Rightarrow> fila" where
  "fila_de_config config =
     \<lparr>name = nombre config, title = titulo config, port = str_int (puerto config),
      service_access_token = token config, tracker_col = tracker config,
      sources_col = json_dumps (sources config), host_col = host config,
      bitrate_col = str_int (bitrate config), content_id_col = content_id config,
      docker_active_col = docker_active config\<rparr>"


definition escribir_fila :: "campo evento \<Rightarrow> fila" where
  "escribir_fila e =
     con_sources e (case sources_col e of Lista l \<Rightarrow> json_dumps l | Texto t \<Rightarrow> t)"

definition escribir_eventos :: "almacen \<Rightarrow> campo evento list \<Rightarrow> exn + almacen" where
  "escribir_eventos st eventos =
     luego (abrir_csv st) (\<lambda>rows. Inr (st\<lparr>filas := map escribir_fila eventos\<rparr>))"

text \<open>
  The loop \<^verbatim>\<open>for evento in eventos: if evento["name"] == ...: ...; break\<close>: the first
  element that satisfies the test is changed; the flag tells whether there was one.
\<close>

fun actualizar_primero :: "('a \<Rightarrow> bool) \<Rightarrow> ('a \<Rightarrow> 'a) \<Rightarrow> 'a list \<Rightarrow> 'a list \<times> bool" where
  "actualizar_primero p f [] = ([], False)"
| "actualizar_primero p f (x # xs) =
     (if p x then (f x # xs, True)
      else (let (r, u) = actualizar_primero p f xs in (x # r, u)))"

definition a_campo :: "fuente list evento \<Rightarrow> campo evento" where
  "a_campo e = con_sources e (Lista (sources_col e))"

text \<open>The nine assignments that \<^verbatim>\<open>actualizar_evento\<close> makes to the record it finds.\<close>

definition asignar_config :: "EventoConfig \<Rightarrow> campo evento \<Rightarrow> campo evento" where
  "asignar_config config evento =
     evento
       \<lparr>title := titulo config,
        port := str_int (puerto config),
        service_access_token := token config,
        tracker_col := tracker config,
        sources_col := Texto (json_dumps (sources config)),
        host_col := host config,
        bitrate_col := str_int (bitrate config),
        content_id_col := content_id config,
        docker_active_col := docker_active config\<rparr>"

definition actualizar_evento :: "almacen \<Rightarrow> EventoConfig \<Rightarrow> exn + almacen" where
  "actualizar_evento st config =
     luego (listar_eventos st)
       (\<lambda>eventos.
          let (eventos', updated) =
                actualizar_primero (\<lambda>evento. name evento = nombre config)
                  (asignar_config config) (map a_campo eventos)
          in if updated then escribir_eventos st eventos'
             else Inl (ValueError ''Evento no encontrado para actualizar''))"

definition eliminar_evento :: "almacen \<Rightarrow> string \<Rightarrow> exn + almacen" where
  "eliminar_evento st nombre' =
     luego (listar_eventos st)
       (\<lambda>eventos.
          escribir_eventos st (map a_campo (filter (\<lambda>evento. name evento \<noteq> nombre') eventos)))"

definition actualizar_content_id :: "almacen \<Rightarrow> string \<Rightarrow> string \<Rightarrow> exn + almacen" where
  "actualizar_content_id st nombre' content_id' =
     luego (listar_eventos st)
       (\<lambda>eventos.
          escribir_eventos st
            (fst (actualizar_primero (\<lambda>evento. name evento = nombre')
                    (\<lambda>evento. evento\<lparr>content_id_col := content_id'\<rparr>)
                    (map a_campo eventos))))"

definition actualizar_docker_active :: "almacen \<Rightarrow> string \<Rightarrow> bool \<Rightarrow> exn + almacen" where
  "actualizar_docker_active st nombre' active =
     luego (listar_eventos st)
       (\<lambda>eventos.
          escribir_eventos st
            (fst (actualizar_primero (\<lambda>evento. name evento = nombre')
                    (\<lambda>evento. evento
                       \<lparr>docker_active_col := (if active then ''True'' else ''False'')\<rparr>)
                    (map a_campo eventos))))"

section \<open>appy.py: containers and the volume\<close>

text \<open>
  The container runtime is the parameter \<open>docker\<close>: for an argument list, the standard
  output of the command, or the exception that \<^verbatim>\<open>subprocess.run(..., check=True)\<close> raises.
\<close>

definition parar_contenedor :: "(string list \<Rightarrow> exn + string) \<Rightarrow> string \<Rightarrow> exn + unit" where
  "parar_contenedor docker contenedor_id =
     (case docker [''docker'', ''stop'', contenedor_id] of
        Inr resultado \<Rightarrow> Inr ()
      | Inl (CalledProcessError m err) \<Rightarrow>
          Inl (RuntimeError (''Error al detener contenedor: '' @ err))
      | Inl e \<Rightarrow> Inl e)"

definition borrar_contenedor :: "(string list \<Rightarrow> exn + string) \<Rightarrow> string \<Rightarrow> exn + unit" where
  "borrar_contenedor docker contenedor_id =
     (case docker [''docker'', ''rm'', contenedor_id] of
        Inr resultado \<Rightarrow> Inr ()
      | Inl (CalledProcessError m err) \<Rightarrow>
          Inl (RuntimeError (''Error al eliminar contenedor: '' @ err))
      | Inl e \<Rightarrow> Inl e)"

definition verificar_y_limpiar_contenedor ::
  "(string list \<Rightarrow> exn + string) \<Rightarrow> string \<Rightarrow> exn + unit" where
  "verificar_y_limpiar_contenedor docker nombre' =
     (case docker [''docker'', ''ps'', ''-a'', ''--filter'', ''name=^'' @ nombre' @ ''$'',
                   ''--format'', ''{{.ID}}''] of
        Inl e \<Rightarrow> Inl e
      | Inr stdout \<Rightarrow>
          if strip stdout \<noteq> [] then
            luego (parar_contenedor docker (strip stdout))
              (\<lambda>u. borrar_contenedor docker (strip stdout))
          else Inr ())"

text \<open>
  The volume directory.  \<open>plataforma\<close> is the answer of \<^verbatim>\<open>platform.system()\<close>.  A
  directory either makes \<^verbatim>\<open>exists()\<close> raise, does not exist, makes \<^verbatim>\<open>iterdir()\<close> raise,
  or has entries; an entry has its name, the answer of \<^verbatim>\<open>is_file()\<close> and the exception
  that \<^verbatim>\<open>unlink()\<close> raises on it, if any.
\<close>

datatype plataforma = Windows | Linux | OtroSistema

record entrada =
  nombre_archivo :: string
  es_archivo :: bool
  error_unlink :: "exn option"

datatype directorio =
    ErrorExiste exn
  | NoExiste
  | ErrorListado exn
  | Entradas "entrada list"

text \<open>
  \<^verbatim>\<open>Path.suffix\<close>: the part of the name from its last dot on, when that dot is neither
  the first nor the last character of the name.
\<close>

definition sufijo :: "string \<Rightarrow> string" where
  "sufijo nm =
     (if CHR ''.'' \<notin> set nm then []
      else (let ext = rev (takeWhile (\<lambda>c. c \<noteq> CHR ''.'') (rev nm));
                i = length nm - length ext - 1
            in if 0 < i \<and> ext \<noteq> [] then CHR ''.'' # ext else []))"

definition extensiones_permitidas :: "string set" where
  "extensiones_permitidas = {''.acelive'', ''.sauth''}"

definition ruta_volumen :: "plataforma \<Rightarrow> string \<Rightarrow> string option" where
  "ruta_volumen sistema nombre_volumen =
     (case sistema of
        Windows \<Rightarrow>
          Some ([barra, barra] @ ''wsl.localhost'' @ [barra] @ ''docker-desktop'' @ [barra] @
                ''mnt'' @ [barra] @ ''docker-desktop-disk'' @ [barra] @ ''data'' @ [barra] @
                ''docker'' @ [barra] @ ''volumes'' @ [barra] @ nombre_volumen @ [barra] @
                ''_data'')
      | Linux \<Rightarrow> Some (''/var/lib/docker/volumes/'' @ nombre_volumen @ ''/_data'')
      | OtroSistema \<Rightarrow> None)"

text \<open>
  The loop over the directory, with the counter \<^verbatim>\<open>archivos_eliminados\<close> and the names
  of the files deleted so far.
\<close>

fun borrar_archivos :: "nat \<Rightarrow> string list \<Rightarrow> entrada list \<Rightarrow> nat \<times> string list" where
  "borrar_archivos archivos_eliminados borrados [] = (archivos_eliminados, borrados)"
| "borrar_archivos archivos_eliminados borrados (archivo # resto) =
     (if es_archivo archivo \<and> sufijo (nombre_archivo archivo) \<notin> extensiones_permitidas then
        (case error_unlink archivo of
           None \<Rightarrow>
             borrar_archivos (archivos_eliminados + 1)
               (borrados @ [nombre_archivo archivo]) resto
         | Some e \<Rightarrow> borrar_archivos archivos_eliminados borrados resto)
      else borrar_archivos archivos_eliminados borrados resto)"

text \<open>The \<^verbatim>\<open>try\<close> block: the result or the exception, and the files deleted.\<close>

definition limpiar_cuerpo ::
  "plataforma \<Rightarrow> (string \<Rightarrow> directorio) \<Rightarrow> string \<Rightarrow> (exn + nat) \<times> string list" where
  "limpiar_cuerpo sistema fs nombre_volumen =
     (case ruta_volumen sistema nombre_volumen of
        None \<Rightarrow> (Inr 0, [])
      | Some ruta_base \<Rightarrow>
          (case fs ruta_base of
             ErrorExiste e \<Rightarrow> (Inl e, [])
           | NoExiste \<Rightarrow> (Inr 0, [])
           | ErrorListado e \<Rightarrow> (Inl e, [])
           | Entradas archivos \<Rightarrow>
               (let (archivos_eliminados, borrados) = borrar_archivos 0 [] archivos
                in (Inr archivos_eliminados, borrados))))"

text \<open>
  \<^verbatim>\<open>limpiar_archivos_temporales\<close>: the \<^verbatim>\<open>except Exception\<close> clause turns an exception
  of the block into the result 0.
\<close>

definition limpiar_archivos_temporales ::
  "plataforma \<Rightarrow> (string \<Rightarrow> directorio) \<Rightarrow> string \<Rightarrow> (exn + nat) \<times> string list" where
  "limpiar_archivos_temporales sistema fs nombre_volumen =
     (case limpiar_cuerpo sistema fs nombre_volumen of
        (Inl e, borrados) \<Rightarrow> (Inr 0, borrados)
      | (Inr n, borrados) \<Rightarrow> (Inr n, borrados))"

section \<open>appy.py: the command builder\<close>

text \<open>The loop that selects the first source flagged valid.\<close>

fun primera_valida :: "fuente list \<Rightarrow> string option" where
  "primera_valida [] = None"
| "primera_valida (fuente # resto) =
     (if valid fuente then Some (source fuente) else primera_valida resto)"

definition msg_sin_fuente :: string where
  "msg_sin_fuente = ''No se encontr'' @ [CHR 0xF3] @ '' una fuente v'' @ [CHR 0xE1] @
     ''lida para el evento''"

definition puerto_tcp :: "EventoConfig \<Rightarrow> string" where
  "puerto_tcp config = str_int (puerto config) @ '':'' @ str_int (puerto config) @ ''/tcp''"

definition puerto_udp :: "EventoConfig \<Rightarrow> string" where
  "puerto_udp config = str_int (puerto config) @ '':'' @ str_int (puerto config) @ ''/udp''"

definition comando_docker :: "EventoConfig \<Rightarrow> string \<Rightarrow> string list" where
  "comando_docker config valid_source =
     [''docker'', ''run'', ''-d'', ''--restart'', ''unless-stopped'',
      ''--name'', nombre config,
      ''-p'', puerto_tcp config,
      ''-p'', puerto_udp config,
      ''-v'', ''acestreamengine_'' @ nombre config @ '':/data'',
      ''lob666/acestreamengine'',
      ''--port'', str_int (puerto config),
      ''--tracker'', tracker config,
      ''--stream-source'',
      ''--name'', nombre config,
      ''--title'', titulo config,
      ''--publish-dir'', ''/data'',
      ''--cache-dir'', ''/data'',
      ''--skip-internal-tracker'',
      ''--quality'', ''HD'',
      ''--category'', ''amateur'',
      ''--service-access-token'', token config,
      ''--service-remote-access'',
      ''--log-debug'', ''1'',
      ''--max-peers'', ''6'',
      ''--max-upload-slots'', ''6'',
      ''--source-read-timeout'', ''15'',
      ''--source-reconnect-interval'', ''1'',
      ''--host'', host config,
      ''--source'', valid_source,
      ''--bitrate'', str_int (bitrate config)]"

definition construir_comando_docker :: "EventoConfig \<Rightarrow> exn + string list" where
  "construir_comando_docker config =
     (case primera_valida (sources config) of
        None \<Rightarrow> Inl (ValueError msg_sin_fuente)
      | Some valid_source \<Rightarrow>
          if valid_source = [] then Inl (ValueError msg_sin_fuente)
          else Inr (comando_docker config valid_source))"

section \<open>appy.py: the readiness poller\<close>

text \<open>
  What one \<^verbatim>\<open>requests.get\<close> gives: a \<^verbatim>\<open>RequestException\<close>, or a response with its
  status code and body.  The body is either not JSON (\<^verbatim>\<open>response.json()\<close> raises
  \<^verbatim>\<open>ValueError\<close>) or the JSON object of the monitor, whose \<^verbatim>\<open>content_id\<close> and
  \<^verbatim>\<open>download_hash\<close> are strings or are absent.  The endpoint is a function from the
  number of the attempt, counted from 0, to what the call of that attempt gives.
\<close>

datatype cuerpo = NoJson | Objeto "string option" "string option"

datatype respuesta = RequestException string | Respuesta int cuerpo

datatype efecto = Dormir nat | HttpGet string

record info_monitor =
  info_content_id :: string
  info_download_hash :: "string option"

definition url_monitor :: "int \<Rightarrow> string" where
  "url_monitor puerto' =
     ''http://localhost:'' @ str_int puerto' @ ''/app/'' @ str_int puerto' @ ''/monitor''"

text \<open>
  The body of the loop for one attempt: the dictionary to return, or \<open>None\<close> when the
  loop goes on to the pause and the next attempt.
\<close>

definition intento_monitor :: "respuesta \<Rightarrow> info_monitor option" where
  "intento_monitor r =
     (case r of
        RequestException m \<Rightarrow> None
      | Respuesta status_code body \<Rightarrow>
          if status_code = 200 then
            (case body of
               NoJson \<Rightarrow> None
             | Objeto content_id' download_hash \<Rightarrow>
                 (case content_id' of
                    None \<Rightarrow> None
                  | Some cid \<Rightarrow>
                      if cid \<noteq> [] \<and> cid \<noteq> ''No encontrado'' then
                        Some \<lparr>info_content_id = cid, info_download_hash = download_hash\<rparr>
                      else None))
          else None)"

definition msg_monitor :: string where
  "msg_monitor = ''No se pudo obtener el monitor despu'' @ [CHR 0xE9] @
     ''s de varios intentos''"

text \<open>
  The loop \<^verbatim>\<open>for intento in range(intentos)\<close> over the list of attempt numbers; it
  returns the result and the calls and pauses made, in order.
\<close>

fun bucle_monitor ::
  "(nat \<Rightarrow> respuesta) \<Rightarrow> int \<Rightarrow> nat list \<Rightarrow> (exn + info_monitor) \<times> efecto list" where
  "bucle_monitor http puerto' [] = (Inl (RuntimeError msg_monitor), [])"
| "bucle_monitor http puerto' (intento # resto) =
     (case intento_monitor (http intento) of
        Some info \<Rightarrow> (Inr info, [HttpGet (url_monitor puerto')])
      | None \<Rightarrow>
          (let (r, efectos) = bucle_monitor http puerto' resto
           in (r, HttpGet (url_monitor puerto') # Dormir 5 # efectos)))"

definition obtener_monitor ::
  "(nat \<Rightarrow> respuesta) \<Rightarrow> string \<Rightarrow> int \<Rightarrow> int \<Rightarrow> (exn + info_monitor) \<times> efecto list" where
  "obtener_monitor http contenedor_id puerto' intentos =
     (let (r, efectos) = bucle_monitor http puerto' [0..<nat intentos]
      in (r, Dormir 15 # efectos))"

text \<open>The number of HTTP calls among the effects.\<close>

fun es_llamada :: "efecto \<Rightarrow> bool" where
  "es_llamada (HttpGet u) = True"
| "es_llamada (Dormir n) = False"

definition llamadas_http :: "efecto list \<Rightarrow> nat" where
  "llamadas_http efectos = length (filter es_llamada efectos)"

text \<open>
  The answers that carry no valid identity: a transport failure, a status other than
  200, a body that is not JSON, and an object whose \<^verbatim>\<open>content_id\<close> is absent, empty or
  the value \<^verbatim>\<open>No encontrado\<close>.
\<close>

definition sin_identidad :: "respuesta \<Rightarrow> bool" where
  "sin_identidad r =
     (case r of
        RequestException m \<Rightarrow> True
      | Respuesta status_code body \<Rightarrow>
          status_code \<noteq> 200 \<or>
          (case body of
             NoJson \<Rightarrow> True
           | Objeto cid dh \<Rightarrow> cid = None \<or> cid = Some [] \<or> cid = Some ''No encontrado''))"

section \<open>appy.py: the start sequence\<close>

text \<open>Everything outside the program that the start sequence asks.\<close>

record mundo =
  ip_address :: "string \<Rightarrow> bool"
  docker :: "string list \<Rightarrow> exn + string"
  sistema :: plataforma
  volumenes :: "string \<Rightarrow> directorio"
  monitor_http :: "nat \<Rightarrow> respuesta"

text \<open>
  \<^verbatim>\<open>repr\<close> of the list \<^verbatim>\<open>errores\<close>: the messages of \<^verbatim>\<open>validar\<close> hold no quote, no
  backslash and no unprintable character, so each one is written between apostrophes
  (0x27) as it is.
\<close>

fun unir :: "string \<Rightarrow> string list \<Rightarrow> string" where
  "unir sep [] = []"
| "unir sep [x] = x"
| "unir sep (x # y # ys) = x @ sep @ unir sep (y # ys)"

definition repr_errores :: "string list \<Rightarrow> string" where
  "repr_errores errores =
     ''['' @ unir '', '' (map (\<lambda>m. [CHR 0x27] @ m @ [CHR 0x27]) errores) @ '']''"

definition msg_validacion :: "string list \<Rightarrow> string" where
  "msg_validacion errores =
     ''Errores de validaci'' @ [CHR 0xF3] @ ''n: '' @ repr_errores errores"

definition msg_iniciado :: "string \<Rightarrow> string \<Rightarrow> string" where
  "msg_iniciado nombre' content_id' =
     ''Evento '' @ [CHR 0x27] @ nombre' @ [CHR 0x27] @
     '' iniciado correctamente con Content ID: '' @ content_id'"

definition msg_error_inicio :: "string \<Rightarrow> exn \<Rightarrow> string" where
  "msg_error_inicio nombre' e = ''Error al iniciar evento '' @ nombre' @ '': '' @ str_exn e"

text \<open>
  The \<^verbatim>\<open>try\<close> block of \<^verbatim>\<open>iniciar_docker_evento\<close>: the string it returns or the
  exception that leaves it, and the store.
\<close>

definition iniciar_cuerpo :: "mundo \<Rightarrow> almacen \<Rightarrow> EventoConfig \<Rightarrow> (exn + string) \<times> almacen" where
  "iniciar_cuerpo w st config =
     (let errores = validar (ip_address w) config in
      if errores \<noteq> [] then (Inr (msg_validacion errores), st)
      else
        (case verificar_y_limpiar_contenedor (docker w) (nombre config) of
           Inl e \<Rightarrow> (Inl e, st)
         | Inr u \<Rightarrow>
        (case fst (limpiar_archivos_temporales (sistema w) (volumenes w)
                     (''acestreamengine_'' @ nombre config)) of
           Inl e \<Rightarrow> (Inl e, st)
         | Inr archivos_eliminados \<Rightarrow>
        (case construir_comando_docker config of
           Inl e \<Rightarrow> (Inl e, st)
         | Inr comando \<Rightarrow>
        (case docker w comando of
           Inl e \<Rightarrow> (Inl e, st)
         | Inr salida \<Rightarrow>
        (case docker w [''docker'', ''ps'', ''--filter'', ''name=^'' @ nombre config @ ''$'',
                        ''--format'', ''{{.ID}}''] of
           Inl e \<Rightarrow> (Inl e, st)
         | Inr stdout \<Rightarrow>
        (case fst (obtener_monitor (monitor_http w) (strip stdout) (puerto config) 10) of
           Inl e \<Rightarrow> (Inl e, st)
         | Inr info \<Rightarrow>
        (case actualizar_content_id st (nombre config) (info_content_id info) of
           Inl e \<Rightarrow> (Inl e, st)
         | Inr st1 \<Rightarrow>
        (case actualizar_docker_active st1 (nombre config) True of
           Inl e \<Rightarrow> (Inl e, st1)
         | Inr st2 \<Rightarrow>
             (Inr (msg_iniciado (nombre config) (info_content_id info)), st2))))))))))"

text \<open>
  \<^verbatim>\<open>iniciar_docker_evento\<close>: the \<^verbatim>\<open>except Exception\<close> clause returns the failure
  string for the exception of the block.
\<close>

definition iniciar_docker_evento ::
  "mundo \<Rightarrow> almacen \<Rightarrow> EventoConfig \<Rightarrow> (exn + string) \<times> almacen" where
  "iniciar_docker_evento w st config =
     (case iniciar_cuerpo w st config of
        (Inl e, st') \<Rightarrow> (Inr (msg_error_inicio (nombre config) e), st')
      | (Inr resultado, st') \<Rightarrow> (Inr resultado, st'))"

section \<open>appy.py: the create and edit forms\<close>










section \<open>check\_sources.py: the source validator\<close>

text \<open>
  \<^verbatim>\<open>is_valid_source\<close> runs \<^verbatim>\<open>ffprobe\<close> on the source: the external process is the
  parameter \<open>ffprobe\<close>, which gives the exit code or the exception that
  \<^verbatim>\<open>subprocess.run\<close> raised.
\<close>

definition is_valid_source :: "(string \<Rightarrow> exn + int) \<Rightarrow> string \<Rightarrow> bool" where
  "is_valid_source ffprobe s =
     (case ffprobe s of Inr returncode \<Rightarrow> returncode = 0 | Inl e \<Rightarrow> False)"

text \<open>
  The loop \<^verbatim>\<open>for fuente in sources\<close> of \<^verbatim>\<open>check_sources\<close>, with the flag
  \<^verbatim>\<open>valid_found\<close> as an argument; it returns the updated list and the final flag.
\<close>

fun marcar_fuentes ::
  "(string \<Rightarrow> exn + int) \<Rightarrow> bool \<Rightarrow> fuente list \<Rightarrow> fuente list \<times> bool" where
  "marcar_fuentes ffprobe valid_found [] = ([], valid_found)"
| "marcar_fuentes ffprobe valid_found (f # fs) =
     (if valid_found then
        (let (r, v) = marcar_fuentes ffprobe valid_found fs
         in (f\<lparr>valid := False\<rparr> # r, v))
      else
        (let source_url = strip (source f) in
         if source_url = [] then
           (let (r, v) = marcar_fuentes ffprobe valid_found fs
            in (f\<lparr>valid := False\<rparr> # r, v))
         else if is_valid_source ffprobe source_url then
           (let (r, v) = marcar_fuentes ffprobe True fs
            in (f\<lparr>valid := True\<rparr> # r, v))
         else
           (let (r, v) = marcar_fuentes ffprobe valid_found fs
            in (f\<lparr>valid := False\<rparr> # r, v))))"

text \<open>
  The body of \<^verbatim>\<open>for evento in eventos\<close> on the decoded \<^verbatim>\<open>sources\<close> of one event:
  an empty list is skipped, any other list starts with \<^verbatim>\<open>valid_found = False\<close>.
\<close>

definition procesar_fuentes :: "(string \<Rightarrow> exn + int) \<Rightarrow> fuente list \<Rightarrow> fuente list" where
  "procesar_fuentes ffprobe sources' =
     (if sources' = [] then sources' else fst (marcar_fuentes ffprobe False sources'))"

text \<open>
  The probe the validator makes for an entry: none when the URL is empty after
  \<^verbatim>\<open>strip()\<close>, otherwise \<^verbatim>\<open>is_valid_source\<close> on the stripped URL.
\<close>

definition sondeo_ok :: "(string \<Rightarrow> exn + int) \<Rightarrow> fuente \<Rightarrow> bool" where
  "sondeo_ok ffprobe f =
     (strip (source f) \<noteq> [] \<and> is_valid_source ffprobe (strip (source f)))"


section \<open>Example data\<close>

text \<open>The event \<^verbatim>\<open>demo\<close> with two sources, the second one flagged valid.\<close>

definition config_demo :: EventoConfig where
  "config_demo =
     \<lparr>nombre = ''demo'', titulo = ''Demo'', puerto = 8642, tracker = ''udp://t'',
      sources = [\<lparr>source = ''a'', valid = False\<rparr>, \<lparr>source = ''b'', valid = True\<rparr>],
      host = ''example.com'', bitrate = 697587, token = ''12345'', content_id = [],
      docker_active = ''False''\<rparr>"

text \<open>A store that holds the event \<^verbatim>\<open>demo\<close> and nothing else.\<close>

definition almacen_demo :: almacen where
  "almacen_demo = \<lparr>filas = [fila_de_config config_demo], error_apertura = None\<rparr>"

text \<open>
  A volume directory with a state file of the engine, a file that cannot be deleted,
  a file that can, and a subdirectory; no other directory exists.
\<close>

definition archivos_demo :: "entrada list" where
  "archivos_demo =
     [\<lparr>nombre_archivo = ''a.acelive'', es_archivo = True, error_unlink = None\<rparr>,
      \<lparr>nombre_archivo = ''b.tmp'', es_archivo = True,
        error_unlink = Some (OSError ''Permission denied'')\<rparr>,
      \<lparr>nombre_archivo = ''c.log'', es_archivo = True, error_unlink = None\<rparr>,
      \<lparr>nombre_archivo = ''d'', es_archivo = False, error_unlink = None\<rparr>]"

definition volumen_demo :: "string \<Rightarrow> directorio" where
  "volumen_demo ruta =
     (if ruta = ''/var/lib/docker/volumes/acestreamengine_demo/_data''
      then Entradas archivos_demo else NoExiste)"

text \<open>
  An endpoint that is not ready on the first two calls (a transport failure, then a
  200 with the value \<^verbatim>\<open>No encontrado\<close>) and reports the identity \<^verbatim>\<open>X123\<close> from the
  third call on.
\<close>

definition endpoint_demo :: "nat \<Rightarrow> respuesta" where
  "endpoint_demo i =
     (if i = 0 then RequestException ''Connection refused''
      else if i = 1 then Respuesta 200 (Objeto (Some ''No encontrado'') None)
      else Respuesta 200 (Objeto (Some ''X123'') None))"

text \<open>
  A world in which every container command succeeds with empty output, the volume
  directory is the one above and the monitor is the endpoint above.
\<close>

definition mundo_demo :: mundo where
  "mundo_demo =
     \<lparr>ip_address = (\<lambda>s. False), docker = (\<lambda>argv. Inr []), sistema = Linux,
      volumenes = volumen_demo, monitor_http = endpoint_demo\<rparr>"


text \<open>
  The event \<^verbatim>\<open>demo\<close> with a single source that is flagged valid and has an empty URL,
  and the event \<^verbatim>\<open>demo\<close> with a title and a tracker that read like tokens of the
  command.
\<close>

definition config_url_vacia :: EventoConfig where
  "config_url_vacia = config_demo\<lparr>sources := [\<lparr>source = [], valid = True\<rparr>]\<rparr>"

definition config_colision :: EventoConfig where
  "config_colision = config_demo\<lparr>titulo := ''--source'', tracker := ''8642:8642/tcp''\<rparr>"


text \<open>A store without records.\<close>

definition almacen_vacio :: almacen where
  "almacen_vacio = \<lparr>filas = [], error_apertura = None\<rparr>"

section \<open>Decoding what was encoded\<close>

lemma hexval_hexdig: "d < 16 \<Longrightarrow> hexval (hexdig d) = Some d"
proof -
  assume "d < 16"
  then consider "d < 10" | "10 \<le> d" "d < 16" by linarith
  then show ?thesis
  proof cases
    case 1
    then have "(48 + d) mod 256 = 48 + d" by simp
    with 1 show ?thesis by (simp add: hexval_def hexdig_def Let_def)
  next
    case 2
    then have "(87 + d) mod 256 = 87 + d" by simp
    with 2 show ?thesis by (simp add: hexval_def hexdig_def Let_def)
  qed
qed

lemma of_char_lt_256: "(of_char c :: nat) < 256"
proof -
  have "(of_char c :: nat) = of_char (char_of (of_char c :: nat))" by simp
  also have "\<dots> = (of_char c :: nat) mod 256" by (simp only: of_char_of)
  finally show ?thesis by (metis mod_less_divisor zero_less_numeral)
qed

lemma hex4_escape:
  "hex4 (CHR ''0'') (CHR ''0'') (hexdig (of_char c div 16)) (hexdig (of_char c mod 16)) =
     Some (of_char c)"
proof -
  have a: "(of_char c :: nat) div 16 < 16"
    using of_char_lt_256 [of c] by (simp add: less_mult_imp_div_less)
  have b: "(of_char c :: nat) mod 16 < 16" by simp
  have z: "hexval (CHR ''0'') = Some 0" by (simp add: hexval_def)
  show ?thesis
    by (simp add: hex4_def z hexval_hexdig [OF a] hexval_hexdig [OF b])
qed

lemma leer_cadena_esc:
  "leer_cadena (esc_json c @ t) =
     (case leer_cadena t of None \<Rightarrow> None | Some (s, r) \<Rightarrow> Some (c # s, r))"
proof -
  let ?n = "of_char c :: nat"
  consider (q) "c = comilla" | (b) "c = barra"
    | (p) "c \<noteq> comilla" "c \<noteq> barra" "32 \<le> ?n" "?n \<le> 126"
    | (e) "?n = 8 \<or> ?n = 12 \<or> ?n = 10 \<or> ?n = 13 \<or> ?n = 9"
    | (u) "c \<noteq> comilla" "c \<noteq> barra" "\<not> (32 \<le> ?n \<and> ?n \<le> 126)"
          "?n \<noteq> 8" "?n \<noteq> 12" "?n \<noteq> 10" "?n \<noteq> 13" "?n \<noteq> 9"
    by blast
  then show ?thesis
  proof cases
    case q
    then show ?thesis
      by (simp add: esc_json_def escape_simple_def comilla_def barra_def
            split: option.splits)
  next
    case b
    then show ?thesis
      by (simp add: esc_json_def escape_simple_def comilla_def barra_def
            split: option.splits)
  next
    case p
    then show ?thesis
      by (simp add: esc_json_def Let_def split: option.splits)
  next
    case e
    then consider "c = CHR 0x08" | "c = CHR 0x0C" | "c = CHR 0x0A" | "c = CHR 0x0D" | "c = CHR 0x09"
      by (auto simp: of_char_eq_iff [symmetric, where ?'a = nat])
    then show ?thesis
      by cases
        (simp_all add: esc_json_def escape_simple_def comilla_def barra_def
           split: option.splits)
  next
    case u
    have lt: "?n < 256" by (rule of_char_lt_256)
    from u have "esc_json c =
        [barra, CHR ''u'', CHR ''0'', CHR ''0'', hexdig (?n div 16), hexdig (?n mod 16)]"
      by (simp add: esc_json_def Let_def)
    then show ?thesis
      using lt by (simp add: hex4_escape barra_def comilla_def split: option.splits)
  qed
qed

lemma leer_cadena_concat:
  "leer_cadena (concat (map esc_json s) @ comilla # t) = Some (s, t)"
proof (induction s)
  case Nil
  show ?case by simp
next
  case (Cons c s)
  have "leer_cadena (concat (map esc_json (c # s)) @ comilla # t) =
      leer_cadena (esc_json c @ (concat (map esc_json s) @ comilla # t))"
    by simp
  also have "\<dots> = Some (c # s, t)"
    by (simp only: leer_cadena_esc Cons.IH option.case prod.case)
  finally show ?case .
qed

lemma esperar_append: "esperar lit (lit @ t) = Some t"
  by (simp add: esperar_def)

lemma leer_bool_encoded:
  "leer_bool ((if b then ''true'' else ''false'') @ t) = Some (b, t)"
  by (simp add: leer_bool_def esperar_def)

lemma leer_objeto_json_obj: "leer_objeto (json_obj f @ t) = Some (f, t)"
proof -
  let ?k1 = "''{'' @ json_str ''source'' @ '': '' @ [comilla]"
  let ?k2 = "'', '' @ json_str ''valid'' @ '': ''"
  let ?b = "(if valid f then ''true'' else ''false'')"
  have shape: "json_obj f @ t =
      ?k1 @ (concat (map esc_json (source f)) @ comilla # (?k2 @ (?b @ (''}'' @ t))))"
    by (simp add: json_obj_def json_str_def)
  show ?thesis
    unfolding leer_objeto_def shape
    by (simp only: esperar_append leer_cadena_concat leer_bool_encoded option.case prod.case)
       simp
qed

lemma leer_resto_items:
  "leer_resto (concat (map (\<lambda>g. '', '' @ json_obj g) fs) @ '']'') = Some fs"
proof (induction fs)
  case Nil
  show ?case by (subst leer_resto.simps) simp
next
  case (Cons f fs)
  let ?rest = "concat (map (\<lambda>g. '', '' @ json_obj g) fs) @ '']''"
  have shape: "concat (map (\<lambda>g. '', '' @ json_obj g) (f # fs)) @ '']'' =
      '', '' @ (json_obj f @ ?rest)"
    by simp
  have ne: "'', '' @ (json_obj f @ ?rest) \<noteq> '']''" by simp
  show ?case
    unfolding shape
    by (subst leer_resto.simps)
       (simp only: ne if_False esperar_append leer_objeto_json_obj option.case prod.case
          Cons.IH option.map)
qed

lemma json_obj_not_close: "json_obj f @ t \<noteq> '']''"
  by (simp add: json_obj_def)

lemma json_loads_dumps: "json_loads (json_dumps xs) = Some xs"
proof (cases xs)
  case Nil
  then show ?thesis by (simp add: json_loads_def esperar_def)
next
  case (Cons f fs)
  let ?rest = "concat (map (\<lambda>g. '', '' @ json_obj g) fs) @ '']''"
  have shape: "json_dumps xs = ''['' @ (json_obj f @ ?rest)"
    using Cons by simp
  show ?thesis
    unfolding json_loads_def shape
    by (simp only: esperar_append option.case json_obj_not_close if_False
          leer_objeto_json_obj prod.case leer_resto_items option.map Cons)
qed

lemma json_dumps_not_empty: "json_dumps xs \<noteq> []"
  by (cases xs) simp_all

section \<open>Validation\<close>

lemma validar_reglas:
  "validar ip c =
     (if nombre c = [] \<or> \<not> coincide_nombre (nombre c) then [msg_nombre] else []) @
     (if \<not> (1024 \<le> puerto c \<and> puerto c \<le> 65535) then [msg_puerto] else []) @
     (if \<not> ip (host c) \<and> \<not> es_dominio_valido (host c) then [msg_host] else []) @
     (if \<not> (0 \<le> bitrate c \<and> bitrate c \<le> 10000000) then [msg_bitrate] else []) @
     (if strip (titulo c) = [] then [msg_titulo] else []) @
     (if sources c = [] \<or> (\<forall>s \<in> set (sources c). strip (source s) = [])
      then [msg_fuentes] else [])"
  unfolding validar_def Let_def by simp

lemma mensajes_distintos:
  "distinct [msg_nombre, msg_puerto, msg_host, msg_bitrate, msg_titulo, msg_fuentes]"
  by (simp add: msg_nombre_def msg_puerto_def msg_host_def msg_bitrate_def msg_titulo_def
      msg_fuentes_def)

text \<open>
  C8. When the port lies outside 1024..65535 the list of \<^verbatim>\<open>validar\<close> holds the port
  message, and each of the other five messages is in the list exactly when its own rule
  is violated; the list without the port message is the list that the same
  configuration with a port in range gets, so no rule is skipped because the port rule
  failed.
\<close>

theorem validar_puerto_fuera_de_rango:
  assumes "puerto c < 1024 \<or> 65535 < puerto c"
  shows "msg_puerto \<in> set (validar ip c) \<and>
    (msg_nombre \<in> set (validar ip c) \<longleftrightarrow> nombre c = [] \<or> \<not> coincide_nombre (nombre c)) \<and>
    (msg_host \<in> set (validar ip c) \<longleftrightarrow> \<not> ip (host c) \<and> \<not> es_dominio_valido (host c)) \<and>
    (msg_bitrate \<in> set (validar ip c) \<longleftrightarrow> \<not> (0 \<le> bitrate c \<and> bitrate c \<le> 10000000)) \<and>
    (msg_titulo \<in> set (validar ip c) \<longleftrightarrow> strip (titulo c) = []) \<and>
    (msg_fuentes \<in> set (validar ip c) \<longleftrightarrow>
       sources c = [] \<or> (\<forall>s \<in> set (sources c). strip (source s) = [])) \<and>
    filter (\<lambda>m. m \<noteq> msg_puerto) (validar ip c) = validar ip (c\<lparr>puerto := 8642\<rparr>)"
proof -
  have p: "\<not> (1024 \<le> puerto c \<and> puerto c \<le> 65535)"
    using assms by auto
  have d: "msg_nombre \<noteq> msg_puerto" "msg_host \<noteq> msg_puerto" "msg_bitrate \<noteq> msg_puerto"
    "msg_titulo \<noteq> msg_puerto" "msg_fuentes \<noteq> msg_puerto"
    "msg_nombre \<noteq> msg_host" "msg_nombre \<noteq> msg_bitrate" "msg_nombre \<noteq> msg_titulo"
    "msg_nombre \<noteq> msg_fuentes" "msg_host \<noteq> msg_bitrate" "msg_host \<noteq> msg_titulo"
    "msg_host \<noteq> msg_fuentes" "msg_bitrate \<noteq> msg_titulo" "msg_bitrate \<noteq> msg_fuentes"
    "msg_titulo \<noteq> msg_fuentes"
    using mensajes_distintos by auto
  have 1: "msg_puerto \<in> set (validar ip c)"
    using p by (simp add: validar_reglas)
  have 2: "msg_nombre \<in> set (validar ip c) \<longleftrightarrow> nombre c = [] \<or> \<not> coincide_nombre (nombre c)"
    using d by (auto simp: validar_reglas)
  have 3: "msg_host \<in> set (validar ip c) \<longleftrightarrow> \<not> ip (host c) \<and> \<not> es_dominio_valido (host c)"
    using d by (auto simp: validar_reglas)
  have 4: "msg_bitrate \<in> set (validar ip c) \<longleftrightarrow> \<not> (0 \<le> bitrate c \<and> bitrate c \<le> 10000000)"
    using d by (auto simp: validar_reglas)
  have 5: "msg_titulo \<in> set (validar ip c) \<longleftrightarrow> strip (titulo c) = []"
    using d by (auto simp: validar_reglas)
  have 6: "msg_fuentes \<in> set (validar ip c) \<longleftrightarrow>
       sources c = [] \<or> (\<forall>s \<in> set (sources c). strip (source s) = [])"
    using d by (auto simp: validar_reglas)
  have 7: "filter (\<lambda>m. m \<noteq> msg_puerto) (validar ip c) = validar ip (c\<lparr>puerto := 8642\<rparr>)"
    using p d by (simp add: validar_reglas)
  from 1 2 3 4 5 6 7 show ?thesis by blast
qed

theorem validar_puerto_fuera_de_rango_witness:
  "((80::int) < 1024 \<or> (65535::int) < 80) \<and>
   validar (\<lambda>s. False)
     \<lparr>nombre = ''demo'', titulo = '' '', puerto = 80, tracker = ''t'',
      sources = [\<lparr>source = ''a'', valid = False\<rparr>], host = ''-x'', bitrate = 5,
      token = ''k'', content_id = [], docker_active = ''False''\<rparr> =
     [msg_puerto, msg_host, msg_titulo]"
proof -
  let ?c = "\<lparr>nombre = ''demo'', titulo = '' '', puerto = 80, tracker = ''t'',
      sources = [\<lparr>source = ''a'', valid = False\<rparr>], host = ''-x'', bitrate = 5,
      token = ''k'', content_id = [], docker_active = ''False''\<rparr>"
  have h: "puerto ?c < 1024 \<or> 65535 < puerto ?c" by simp
  have r: "validar (\<lambda>s. False) (?c\<lparr>puerto := 8642\<rparr>) = [msg_host, msg_titulo]"
    by (simp add: validar_reglas coincide_nombre_def sin_salto_final_def es_alnum_def
        es_dominio_valido_def es_etiqueta_def strip_def es_espacio_def)
  from validar_puerto_fuera_de_rango [OF h, of "\<lambda>s. False"]
  have m: "msg_puerto \<in> set (validar (\<lambda>s. False) ?c)"
    and f: "filter (\<lambda>m. m \<noteq> msg_puerto) (validar (\<lambda>s. False) ?c) =
      validar (\<lambda>s. False) (?c\<lparr>puerto := 8642\<rparr>)"
    by blast+
  have "validar (\<lambda>s. False) ?c = [msg_puerto, msg_host, msg_titulo]"
    by (simp add: validar_reglas coincide_nombre_def sin_salto_final_def es_alnum_def
        es_dominio_valido_def es_etiqueta_def strip_def es_espacio_def)
  with m f r show ?thesis by simp
qed

section \<open>The store\<close>

lemma leer_sources_dumps: "leer_sources (json_dumps xs) = xs"
  by (simp add: leer_sources_def json_loads_dumps json_dumps_not_empty)


lemma abrir_csv_ok: "error_apertura st = None \<Longrightarrow> abrir_csv st = Inr (filas st)"
  by (simp add: abrir_csv_def)

lemma listar_eventos_ok:
  "error_apertura st = None \<Longrightarrow>
   listar_eventos st =
     Inr (map (\<lambda>row. con_sources row (leer_sources (sources_col row))) (filas st))"
  by (simp add: listar_eventos_def luego_def abrir_csv_ok)

lemma escribir_eventos_ok:
  "error_apertura st = None \<Longrightarrow>
   escribir_eventos st eventos = Inr (st\<lparr>filas := map escribir_fila eventos\<rparr>)"
  by (simp add: escribir_eventos_def luego_def abrir_csv_ok)



lemma actualizar_primero_ninguno:
  "\<forall>x \<in> set xs. \<not> p x \<Longrightarrow> actualizar_primero p f xs = (xs, False)"
  by (induction xs) simp_all

lemma escribir_fila_a_campo:
  "escribir_fila (a_campo (con_sources row (leer_sources (sources_col row)))) =
     con_sources row (json_dumps (leer_sources (sources_col row)))"
  by (simp add: escribir_fila_def a_campo_def con_sources_def)

lemma reescribir_fila_de_config:
  "con_sources (fila_de_config c) (json_dumps (leer_sources (sources_col (fila_de_config c)))) =
     fila_de_config c"
  by (simp add: con_sources_def fila_de_config_def leer_sources_dumps)

section \<open>Cleaning the volume\<close>






section \<open>The command builder\<close>

lemma es_digito_digito: "d < 10 \<Longrightarrow> es_digito (digito d)"
proof -
  assume d: "d < 10"
  then have "(48 + d) mod 256 = 48 + d" by simp
  with d show ?thesis by (simp add: es_digito_def digito_def)
qed

lemma str_nat_digitos: "c \<in> set (str_nat n) \<Longrightarrow> es_digito c"
proof (induction n arbitrary: c rule: str_nat.induct)
  case (1 n)
  show ?case
  proof (cases "n < 10")
    case True
    with "1.prems" have "c = digito n"
      by (subst (asm) str_nat.simps) simp
    with True show ?thesis
      by (simp add: es_digito_digito)
  next
    case False
    have m: "n mod 10 < 10" by simp
    from False "1.prems" have "c \<in> set (str_nat (n div 10)) \<or> c = digito (n mod 10)"
      by (subst (asm) str_nat.simps) auto
    with False "1.IH" es_digito_digito [OF m] show ?thesis by auto
  qed
qed

lemma str_nat_no_vacio: "str_nat n \<noteq> []"
  by (subst str_nat.simps) simp

lemma str_int_caracteres: "c \<in> set (str_int i) \<Longrightarrow> es_digito c \<or> c = CHR ''-''"
  by (auto simp: str_int_def dest: str_nat_digitos split: if_splits)

lemma str_int_no_vacio: "str_int i \<noteq> []"
  by (simp add: str_int_def str_nat_no_vacio)

lemma str_int_distinto:
  "\<exists>c \<in> set s. \<not> es_digito c \<and> c \<noteq> CHR ''-'' \<Longrightarrow> str_int i \<noteq> s"
  using str_int_caracteres by blast

lemma dos_puntos_str_int: "CHR '':'' \<notin> set (str_int i)"
  using str_int_caracteres [of "CHR '':''" i] by (auto simp: es_digito_def)

lemma puerto_tcp_distinto: "CHR '':'' \<notin> set s \<Longrightarrow> puerto_tcp c \<noteq> s"
  by (auto simp: puerto_tcp_def)

lemma puerto_udp_distinto: "CHR '':'' \<notin> set s \<Longrightarrow> puerto_udp c \<noteq> s"
  by (auto simp: puerto_udp_def)

lemma hd_str_int: "es_digito (hd (str_int i)) \<or> hd (str_int i) = CHR ''-''"
  using str_int_caracteres [of "hd (str_int i)" i] str_int_no_vacio [of i] by simp

lemma puerto_tcp_volumen: "puerto_tcp c \<noteq> ''acestreamengine_'' @ n @ '':/data''"
proof
  assume "puerto_tcp c = ''acestreamengine_'' @ n @ '':/data''"
  then have "hd (puerto_tcp c) = CHR ''a''" by simp
  moreover have "hd (puerto_tcp c) = hd (str_int (puerto c))"
    by (simp add: puerto_tcp_def str_int_no_vacio)
  ultimately show False
    using hd_str_int [of "puerto c"] by (auto simp: es_digito_def)
qed

lemma puerto_udp_volumen: "puerto_udp c \<noteq> ''acestreamengine_'' @ n @ '':/data''"
proof
  assume "puerto_udp c = ''acestreamengine_'' @ n @ '':/data''"
  then have "hd (puerto_udp c) = CHR ''a''" by simp
  moreover have "hd (puerto_udp c) = hd (str_int (puerto c))"
    by (simp add: puerto_udp_def str_int_no_vacio)
  ultimately show False
    using hd_str_int [of "puerto c"] by (auto simp: es_digito_def)
qed

lemma puerto_tcp_udp: "puerto_tcp c \<noteq> puerto_udp c"
  by (simp add: puerto_tcp_def puerto_udp_def)

lemma primera_valida_ninguna:
  "\<forall>f \<in> set xs. \<not> valid f \<Longrightarrow> primera_valida xs = None"
  by (induction xs) simp_all

lemma primera_valida_nth:
  "i < length xs \<Longrightarrow> valid (xs ! i) \<Longrightarrow> \<forall>j<i. \<not> valid (xs ! j) \<Longrightarrow>
   primera_valida xs = Some (source (xs ! i))"
proof (induction xs arbitrary: i)
  case Nil
  then show ?case by simp
next
  case (Cons f fs)
  show ?case
  proof (cases i)
    case 0
    with Cons.prems show ?thesis by simp
  next
    case (Suc k)
    with Cons.prems have "\<not> valid f" by auto
    moreover from Suc Cons.prems have "primera_valida fs = Some (source (fs ! k))"
      by (intro Cons.IH) auto
    ultimately show ?thesis using Suc by simp
  qed
qed

lemma cuenta_source:
  assumes "''--source'' \<notin> {nombre c, tracker c, titulo c, token c, host c, u}"
  shows "count_list (comando_docker c u) ''--source'' = 1"
proof -
  have a: "str_int (puerto c) \<noteq> ''--source''" "str_int (bitrate c) \<noteq> ''--source''"
    by (rule str_int_distinto, simp add: es_digito_def)+
  have b: "puerto_tcp c \<noteq> ''--source''" "puerto_udp c \<noteq> ''--source''"
    by (simp_all add: puerto_tcp_distinto puerto_udp_distinto)
  show ?thesis
    using assms a b by (auto simp: comando_docker_def)
qed

lemma cuenta_puerto_tcp:
  assumes "puerto_tcp c \<notin> {nombre c, tracker c, titulo c, token c, host c, u}"
  shows "count_list (comando_docker c u) (puerto_tcp c) = 1"
proof -
  have a: "puerto_tcp c \<noteq> str_int (puerto c)" "puerto_tcp c \<noteq> str_int (bitrate c)"
    by (simp_all add: puerto_tcp_distinto dos_puntos_str_int)
  note b = puerto_tcp_volumen [of c "nombre c"] puerto_tcp_udp [of c]
  show ?thesis
    using assms a b
    by (auto simp: comando_docker_def puerto_tcp_distinto
          puerto_tcp_distinto [symmetric])
qed

lemma cuenta_puerto_udp:
  assumes "puerto_udp c \<notin> {nombre c, tracker c, titulo c, token c, host c, u}"
  shows "count_list (comando_docker c u) (puerto_udp c) = 1"
proof -
  have a: "puerto_udp c \<noteq> str_int (puerto c)" "puerto_udp c \<noteq> str_int (bitrate c)"
    by (simp_all add: puerto_udp_distinto dos_puntos_str_int)
  note b = puerto_udp_volumen [of c "nombre c"] puerto_tcp_udp [of c]
  show ?thesis
    using assms a b
    by (auto simp: comando_docker_def puerto_udp_distinto
          puerto_udp_distinto [symmetric])
qed

lemma comando_docker_forma:
  "\<exists>antes. comando_docker c u = antes @ [''--source'', u, ''--bitrate'', str_int (bitrate c)]"
  by (simp add: comando_docker_def)

lemma comando_docker_puertos:
  "take 4 (drop 7 (comando_docker c u)) = [''-p'', puerto_tcp c, ''-p'', puerto_udp c]"
  by (simp add: comando_docker_def)

lemma digito_cifras:
  "digito 0 = CHR ''0''" "digito 1 = CHR ''1''" "digito 2 = CHR ''2''" "digito 3 = CHR ''3''"
  "digito 4 = CHR ''4''" "digito 5 = CHR ''5''" "digito 6 = CHR ''6''" "digito 7 = CHR ''7''"
  "digito 8 = CHR ''8''" "digito 9 = CHR ''9''"
  by code_simp+

lemma str_int_demo: "str_int 8642 = ''8642''" "str_int 697587 = ''697587''"
  by (simp_all add: str_int_def str_nat.simps digito_cifras)

text \<open>
  C2 as stated fails on the code.  A configuration whose only source is flagged valid
  and has an empty URL has a valid entry, and the builder raises for it; and for a
  configuration whose title is \<^verbatim>\<open>--source\<close> and whose tracker is \<^verbatim>\<open>8642:8642/tcp\<close> the
  command holds each of these two tokens twice.
\<close>

theorem construir_comando_docker_contraejemplo:
  "valid (sources config_url_vacia ! 0) \<and>
   construir_comando_docker config_url_vacia = Inl (ValueError msg_sin_fuente) \<and>
   construir_comando_docker config_colision = Inr (comando_docker config_colision ''b'') \<and>
   count_list (comando_docker config_colision ''b'') ''--source'' = 2 \<and>
   count_list (comando_docker config_colision ''b'') ''8642:8642/tcp'' = 2"
  by (simp add: config_url_vacia_def config_colision_def config_demo_def
      construir_comando_docker_def comando_docker_def puerto_tcp_def puerto_udp_def
      str_int_demo)

text \<open>
  C2, amended.  The builder raises when no entry is flagged valid, and also when the
  first entry flagged valid has an empty URL.  Otherwise it emits the command, which
  ends with \<^verbatim>\<open>--source\<close>, the URL of the first entry flagged valid,
  \<^verbatim>\<open>--bitrate\<close> and the bitrate, and whose tokens 7 to 10 are \<^verbatim>\<open>-p\<close>, the TCP mapping,
  \<^verbatim>\<open>-p\<close> and the UDP mapping of the configured port; and when none of the strings passed
  through unchanged (name, tracker, title, token, host and the URL) is itself
  \<^verbatim>\<open>--source\<close> or one of the two port mappings, the command holds \<^verbatim>\<open>--source\<close> exactly
  once and each port mapping exactly once.
\<close>

theorem construir_comando_docker_primera_valida:
  "((\<forall>f \<in> set (sources c). \<not> valid f) \<longrightarrow>
      construir_comando_docker c = Inl (ValueError msg_sin_fuente)) \<and>
   (\<forall>i<length (sources c).
      valid (sources c ! i) \<and> (\<forall>j<i. \<not> valid (sources c ! j)) \<longrightarrow>
      (source (sources c ! i) = [] \<longrightarrow>
         construir_comando_docker c = Inl (ValueError msg_sin_fuente)) \<and>
      (source (sources c ! i) \<noteq> [] \<longrightarrow>
         construir_comando_docker c = Inr (comando_docker c (source (sources c ! i))) \<and>
         (\<exists>antes. comando_docker c (source (sources c ! i)) =
            antes @ [''--source'', source (sources c ! i), ''--bitrate'', str_int (bitrate c)]) \<and>
         take 4 (drop 7 (comando_docker c (source (sources c ! i)))) =
            [''-p'', puerto_tcp c, ''-p'', puerto_udp c] \<and>
         (''--source'' \<notin> {nombre c, tracker c, titulo c, token c, host c,
                            source (sources c ! i)} \<and>
          puerto_tcp c \<notin> {nombre c, tracker c, titulo c, token c, host c,
                            source (sources c ! i)} \<and>
          puerto_udp c \<notin> {nombre c, tracker c, titulo c, token c, host c,
                            source (sources c ! i)} \<longrightarrow>
          count_list (comando_docker c (source (sources c ! i))) ''--source'' = 1 \<and>
          count_list (comando_docker c (source (sources c ! i))) (puerto_tcp c) = 1 \<and>
          count_list (comando_docker c (source (sources c ! i))) (puerto_udp c) = 1)))"
proof (rule conjI)
  show "((\<forall>f \<in> set (sources c). \<not> valid f) \<longrightarrow>
      construir_comando_docker c = Inl (ValueError msg_sin_fuente))"
    by (simp add: construir_comando_docker_def primera_valida_ninguna)
next
  show "\<forall>i<length (sources c).
      valid (sources c ! i) \<and> (\<forall>j<i. \<not> valid (sources c ! j)) \<longrightarrow>
      (source (sources c ! i) = [] \<longrightarrow>
         construir_comando_docker c = Inl (ValueError msg_sin_fuente)) \<and>
      (source (sources c ! i) \<noteq> [] \<longrightarrow>
         construir_comando_docker c = Inr (comando_docker c (source (sources c ! i))) \<and>
         (\<exists>antes. comando_docker c (source (sources c ! i)) =
            antes @ [''--source'', source (sources c ! i), ''--bitrate'', str_int (bitrate c)]) \<and>
         take 4 (drop 7 (comando_docker c (source (sources c ! i)))) =
            [''-p'', puerto_tcp c, ''-p'', puerto_udp c] \<and>
         (''--source'' \<notin> {nombre c, tracker c, titulo c, token c, host c,
                            source (sources c ! i)} \<and>
          puerto_tcp c \<notin> {nombre c, tracker c, titulo c, token c, host c,
                            source (sources c ! i)} \<and>
          puerto_udp c \<notin> {nombre c, tracker c, titulo c, token c, host c,
                            source (sources c ! i)} \<longrightarrow>
          count_list (comando_docker c (source (sources c ! i))) ''--source'' = 1 \<and>
          count_list (comando_docker c (source (sources c ! i))) (puerto_tcp c) = 1 \<and>
          count_list (comando_docker c (source (sources c ! i))) (puerto_udp c) = 1))"
  proof (intro allI impI)
    fix i
    assume l: "i < length (sources c)"
      and h: "valid (sources c ! i) \<and> (\<forall>j<i. \<not> valid (sources c ! j))"
    from h have v: "valid (sources c ! i)" and a: "\<forall>j<i. \<not> valid (sources c ! j)"
      by (rule conjunct1, rule conjunct2)
    have p: "primera_valida (sources c) = Some (source (sources c ! i))"
      by (rule primera_valida_nth [OF l v a])
    have e: "(source (sources c ! i) = [] \<longrightarrow>
         construir_comando_docker c = Inl (ValueError msg_sin_fuente))"
      by (simp add: construir_comando_docker_def p)
    have n: "source (sources c ! i) \<noteq> [] \<Longrightarrow> construir_comando_docker c = Inr (comando_docker c (source (sources c ! i)))"
      by (simp add: construir_comando_docker_def p)
    have f: "(\<exists>antes. comando_docker c (source (sources c ! i)) =
            antes @ [''--source'', source (sources c ! i), ''--bitrate'', str_int (bitrate c)])"
      by (rule comando_docker_forma)
    have t: "take 4 (drop 7 (comando_docker c (source (sources c ! i)))) =
            [''-p'', puerto_tcp c, ''-p'', puerto_udp c]"
      by (rule comando_docker_puertos)
    have k: "(''--source'' \<notin> {nombre c, tracker c, titulo c, token c, host c,
                            source (sources c ! i)} \<and>
          puerto_tcp c \<notin> {nombre c, tracker c, titulo c, token c, host c,
                            source (sources c ! i)} \<and>
          puerto_udp c \<notin> {nombre c, tracker c, titulo c, token c, host c,
                            source (sources c ! i)} \<longrightarrow>
          count_list (comando_docker c (source (sources c ! i))) ''--source'' = 1 \<and>
          count_list (comando_docker c (source (sources c ! i))) (puerto_tcp c) = 1 \<and>
          count_list (comando_docker c (source (sources c ! i))) (puerto_udp c) = 1)"
    proof (intro impI)
      assume g: "''--source'' \<notin> {nombre c, tracker c, titulo c, token c, host c,
                            source (sources c ! i)} \<and>
          puerto_tcp c \<notin> {nombre c, tracker c, titulo c, token c, host c,
                            source (sources c ! i)} \<and>
          puerto_udp c \<notin> {nombre c, tracker c, titulo c, token c, host c,
                            source (sources c ! i)}"
      from g have g1: "''--source'' \<notin> {nombre c, tracker c, titulo c, token c, host c,
                            source (sources c ! i)}"
        by (rule conjunct1)
      from g have g2: "puerto_tcp c \<notin> {nombre c, tracker c, titulo c, token c, host c,
                            source (sources c ! i)}"
        by (rule conjunct1 [OF conjunct2])
      from g have g3: "puerto_udp c \<notin> {nombre c, tracker c, titulo c, token c, host c,
                            source (sources c ! i)}"
        by (rule conjunct2 [OF conjunct2])
      show "count_list (comando_docker c (source (sources c ! i))) ''--source'' = 1 \<and>
          count_list (comando_docker c (source (sources c ! i))) (puerto_tcp c) = 1 \<and>
          count_list (comando_docker c (source (sources c ! i))) (puerto_udp c) = 1"
        by (intro conjI cuenta_source [OF g1] cuenta_puerto_tcp [OF g2]
            cuenta_puerto_udp [OF g3])
    qed
    show "(source (sources c ! i) = [] \<longrightarrow>
         construir_comando_docker c = Inl (ValueError msg_sin_fuente)) \<and>
      (source (sources c ! i) \<noteq> [] \<longrightarrow>
         construir_comando_docker c = Inr (comando_docker c (source (sources c ! i))) \<and>
         (\<exists>antes. comando_docker c (source (sources c ! i)) =
            antes @ [''--source'', source (sources c ! i), ''--bitrate'', str_int (bitrate c)]) \<and>
         take 4 (drop 7 (comando_docker c (source (sources c ! i)))) =
            [''-p'', puerto_tcp c, ''-p'', puerto_udp c] \<and>
         (''--source'' \<notin> {nombre c, tracker c, titulo c, token c, host c,
                            source (sources c ! i)} \<and>
          puerto_tcp c \<notin> {nombre c, tracker c, titulo c, token c, host c,
                            source (sources c ! i)} \<and>
          puerto_udp c \<notin> {nombre c, tracker c, titulo c, token c, host c,
                            source (sources c ! i)} \<longrightarrow>
          count_list (comando_docker c (source (sources c ! i))) ''--source'' = 1 \<and>
          count_list (comando_docker c (source (sources c ! i))) (puerto_tcp c) = 1 \<and>
          count_list (comando_docker c (source (sources c ! i))) (puerto_udp c) = 1))"
    proof (intro conjI impI)
      show "source (sources c ! i) = [] \<Longrightarrow> construir_comando_docker c = Inl (ValueError msg_sin_fuente)"
        using e by simp
    next
      assume "source (sources c ! i) \<noteq> []"
      then show "construir_comando_docker c = Inr (comando_docker c (source (sources c ! i)))" by (rule n)
    next
      show "(\<exists>antes. comando_docker c (source (sources c ! i)) =
            antes @ [''--source'', source (sources c ! i), ''--bitrate'', str_int (bitrate c)])" by (rule f)
    next
      show "take 4 (drop 7 (comando_docker c (source (sources c ! i)))) =
            [''-p'', puerto_tcp c, ''-p'', puerto_udp c]" by (rule t)
    next
      assume g: "''--source'' \<notin> {nombre c, tracker c, titulo c, token c, host c,
                            source (sources c ! i)} \<and>
          puerto_tcp c \<notin> {nombre c, tracker c, titulo c, token c, host c,
                            source (sources c ! i)} \<and>
          puerto_udp c \<notin> {nombre c, tracker c, titulo c, token c, host c,
                            source (sources c ! i)}"
      have r: "count_list (comando_docker c (source (sources c ! i))) ''--source'' = 1 \<and>
          count_list (comando_docker c (source (sources c ! i))) (puerto_tcp c) = 1 \<and>
          count_list (comando_docker c (source (sources c ! i))) (puerto_udp c) = 1"
        by (rule mp [OF k g])
      from r show "count_list (comando_docker c (source (sources c ! i))) ''--source'' = 1"
        by (rule conjunct1)
      from r show "count_list (comando_docker c (source (sources c ! i))) (puerto_tcp c) = 1"
        by (rule conjunct1 [OF conjunct2])
      from r show "count_list (comando_docker c (source (sources c ! i))) (puerto_udp c) = 1"
        by (rule conjunct2 [OF conjunct2])
    qed
  qed
qed

theorem construir_comando_docker_primera_valida_witness:
  "(1::nat) < length (sources config_demo) \<and> valid (sources config_demo ! 1) \<and>
   \<not> valid (sources config_demo ! 0) \<and> source (sources config_demo ! 1) \<noteq> [] \<and>
   construir_comando_docker config_demo = Inr (comando_docker config_demo ''b'') \<and>
   count_list (comando_docker config_demo ''b'') ''--source'' = 1 \<and>
   count_list (comando_docker config_demo ''b'') ''8642:8642/tcp'' = 1 \<and>
   count_list (comando_docker config_demo ''b'') ''8642:8642/udp'' = 1"
proof -
  have l: "(1::nat) < length (sources config_demo)"
    and v: "valid (sources config_demo ! 1)"
    and a: "\<forall>j<1. \<not> valid (sources config_demo ! j)"
    and u: "source (sources config_demo ! 1) = ''b''"
    by (simp_all add: config_demo_def)
  have ne: "source (sources config_demo ! 1) \<noteq> []"
    unfolding u by simp
  have t: "puerto_tcp config_demo = ''8642:8642/tcp''"
    and d: "puerto_udp config_demo = ''8642:8642/udp''"
    by (simp_all add: puerto_tcp_def puerto_udp_def config_demo_def str_int_demo)
  have g1: "''--source'' \<notin> {nombre config_demo, tracker config_demo, titulo config_demo,
        token config_demo, host config_demo, source (sources config_demo ! 1)}"
    by (simp add: config_demo_def)
  have g2: "puerto_tcp config_demo \<notin> {nombre config_demo, tracker config_demo,
        titulo config_demo, token config_demo, host config_demo,
        source (sources config_demo ! 1)}"
    unfolding t by (simp add: config_demo_def)
  have g3: "puerto_udp config_demo \<notin> {nombre config_demo, tracker config_demo,
        titulo config_demo, token config_demo, host config_demo,
        source (sources config_demo ! 1)}"
    unfolding d by (simp add: config_demo_def)
  note paso = construir_comando_docker_primera_valida
    [of config_demo, THEN conjunct2, rule_format, OF l, OF conjI [OF v a],
     THEN conjunct2, THEN mp, OF ne]
  note emitido = paso [THEN conjunct1]
  note cuentas = paso [THEN conjunct2, THEN conjunct2, THEN conjunct2, THEN mp,
    OF conjI [OF g1 conjI [OF g2 g3]]]
  have e: "construir_comando_docker config_demo = Inr (comando_docker config_demo ''b'')"
    using emitido by (simp only: u)
  have c: "count_list (comando_docker config_demo ''b'') ''--source'' = 1 \<and>
      count_list (comando_docker config_demo ''b'') ''8642:8642/tcp'' = 1 \<and>
      count_list (comando_docker config_demo ''b'') ''8642:8642/udp'' = 1"
    using cuentas by (simp only: u t d)
  note c1 = c [THEN conjunct1]
  note c2 = c [THEN conjunct2, THEN conjunct1]
  note c3 = c [THEN conjunct2, THEN conjunct2]
  have a0: "\<not> valid (sources config_demo ! 0)"
    by (simp add: config_demo_def)
  show ?thesis
    by (intro conjI) (rule l v a0 ne e c1 c2 c3)+
qed

section \<open>The readiness poller\<close>

lemma intento_monitor_None: "intento_monitor r = None \<longleftrightarrow> sin_identidad r"
  by (auto simp: intento_monitor_def sin_identidad_def
      split: respuesta.splits cuerpo.splits option.splits)



lemma bucle_monitor_listo:
  "\<forall>i \<in> set antes. sin_identidad (http i) \<Longrightarrow> intento_monitor (http k) = Some info \<Longrightarrow>
   fst (bucle_monitor http p (antes @ k # despues)) = Inr info \<and>
   llamadas_http (snd (bucle_monitor http p (antes @ k # despues))) = length antes + 1"
  by (induction antes)
     (simp_all add: llamadas_http_def intento_monitor_None [symmetric] case_prod_beta)

lemma obtener_monitor_bucle:
  "fst (obtener_monitor http c p n) = fst (bucle_monitor http p [0..<nat n]) \<and>
   llamadas_http (snd (obtener_monitor http c p n)) =
     llamadas_http (snd (bucle_monitor http p [0..<nat n]))"
  by (simp add: obtener_monitor_def llamadas_http_def case_prod_beta)



section \<open>The start sequence\<close>




section \<open>Persistence of the start sequence\<close>

lemma iniciar_sin_registro:
  "iniciar_docker_evento mundo_demo almacen_vacio config_demo =
     (Inr (msg_iniciado ''demo'' ''X123''), almacen_vacio)"
proof -
  let ?st = "almacen_vacio"
  have v: "validar (ip_address mundo_demo) config_demo = []"
    by (simp add: validar_def config_demo_def mundo_demo_def
        coincide_nombre_def sin_salto_final_def es_alnum_def es_dominio_valido_def
        es_etiqueta_def strip_def es_espacio_def)
  have r: "verificar_y_limpiar_contenedor (docker mundo_demo) (nombre config_demo) = Inr ()"
    by (simp add: verificar_y_limpiar_contenedor_def mundo_demo_def strip_def)
  have b: "construir_comando_docker config_demo = Inr (comando_docker config_demo ''b'')"
    by (simp add: construir_comando_docker_def config_demo_def)
  have d: "\<And>argv. docker mundo_demo argv = Inr []"
    by (simp add: mundo_demo_def)
  have a: "\<forall>i \<in> set [0..<2]. sin_identidad (monitor_http mundo_demo i)"
    by (simp add: mundo_demo_def endpoint_demo_def sin_identidad_def)
  have s: "intento_monitor (monitor_http mundo_demo 2) =
      Some \<lparr>info_content_id = ''X123'', info_download_hash = None\<rparr>"
    by (simp add: mundo_demo_def endpoint_demo_def intento_monitor_def)
  have u: "[0..<nat 10] = [0..<2] @ 2 # [3..<10]"
    by (simp add: upt_rec)
  have m: "fst (obtener_monitor (monitor_http mundo_demo) (strip []) (puerto config_demo) 10) =
      Inr \<lparr>info_content_id = ''X123'', info_download_hash = None\<rparr>"
    using bucle_monitor_listo [OF a s, of "puerto config_demo" "[3..<10]"]
    by (simp only: obtener_monitor_bucle u)
  have l: "\<exists>n. fst (limpiar_archivos_temporales (sistema mundo_demo) (volumenes mundo_demo)
      (''acestreamengine_'' @ nombre config_demo)) = Inr n"
    by (simp add: limpiar_archivos_temporales_def split: prod.splits sum.splits)
  have c: "actualizar_content_id ?st (nombre config_demo) ''X123'' = Inr ?st"
    by (simp add: actualizar_content_id_def listar_eventos_def escribir_eventos_def luego_def
        abrir_csv_def almacen_vacio_def)
  have e: "actualizar_docker_active ?st (nombre config_demo) True = Inr ?st"
    by (simp add: actualizar_docker_active_def listar_eventos_def escribir_eventos_def luego_def
        abrir_csv_def almacen_vacio_def)
  have n: "nombre config_demo = ''demo''"
    by (simp add: config_demo_def)
  from l obtain k where l': "fst (limpiar_archivos_temporales (sistema mundo_demo)
      (volumenes mundo_demo) (''acestreamengine_'' @ nombre config_demo)) = Inr k"
    by blast
  have "iniciar_docker_evento mundo_demo ?st config_demo =
      (Inr (msg_iniciado (nombre config_demo) ''X123''), ?st)"
    by (simp add: iniciar_docker_evento_def iniciar_cuerpo_def v r l' b d m c e
        del: append.simps)
  then show ?thesis by (simp only: n)
qed

text \<open>
  C5, on the code.  In the store that holds only the event \<^verbatim>\<open>demo\<close>, updating the
  event \<^verbatim>\<open>otro\<close> with \<^verbatim>\<open>actualizar_evento\<close> raises \<^verbatim>\<open>ValueError\<close>, while
  \<^verbatim>\<open>_actualizar_content_id\<close> and \<^verbatim>\<open>_actualizar_docker_active\<close> return normally and
  leave the store as it was; and the start sequence for the event \<^verbatim>\<open>demo\<close> on an empty
  store returns its success string and leaves the store empty.
\<close>

theorem actualizar_evento_ausente:
  "actualizar_evento almacen_demo (config_demo\<lparr>nombre := ''otro''\<rparr>) =
     Inl (ValueError ''Evento no encontrado para actualizar'') \<and>
   actualizar_content_id almacen_demo ''otro'' ''X123'' = Inr almacen_demo \<and>
   actualizar_docker_active almacen_demo ''otro'' True = Inr almacen_demo \<and>
   iniciar_docker_evento mundo_demo almacen_vacio config_demo =
     (Inr (msg_iniciado ''demo'' ''X123''), almacen_vacio)"
proof -
  have o: "error_apertura almacen_demo = None"
    by (simp add: almacen_demo_def)
  have l: "listar_eventos almacen_demo =
      Inr [con_sources (fila_de_config config_demo)
             (leer_sources (sources_col (fila_de_config config_demo)))]"
    using listar_eventos_ok [OF o] by (simp add: almacen_demo_def)
  have n: "name (fila_de_config config_demo) \<noteq> ''otro''"
    by (simp add: fila_de_config_def config_demo_def)
  have w: "escribir_eventos almacen_demo
      [a_campo (con_sources (fila_de_config config_demo)
         (leer_sources (sources_col (fila_de_config config_demo))))] = Inr almacen_demo"
    using escribir_eventos_ok [OF o]
    by (simp add: escribir_fila_a_campo reescribir_fila_de_config almacen_demo_def)
  have 1: "actualizar_evento almacen_demo (config_demo\<lparr>nombre := ''otro''\<rparr>) =
      Inl (ValueError ''Evento no encontrado para actualizar'')"
    using n by (simp add: actualizar_evento_def l luego_def a_campo_def con_sources_def)
  have 2: "actualizar_content_id almacen_demo ''otro'' ''X123'' = Inr almacen_demo"
    using n w
    by (simp add: actualizar_content_id_def l luego_def a_campo_def con_sources_def)
  have 3: "actualizar_docker_active almacen_demo ''otro'' True = Inr almacen_demo"
    using n w
    by (simp add: actualizar_docker_active_def l luego_def a_campo_def con_sources_def)
  from 1 2 3 iniciar_sin_registro show ?thesis by blast
qed

section \<open>Properties of the source validator\<close>

lemma marcar_fuentes_length:
  "length (fst (marcar_fuentes p vf xs)) = length xs"
  by (induction xs arbitrary: vf) (simp_all add: Let_def case_prod_beta)


lemma marcar_fuentes_found:
  "map valid (fst (marcar_fuentes p True xs)) = replicate (length xs) False"
  by (induction xs) (simp_all add: case_prod_beta)

lemma marcar_fuentes_valid_nth:
  "i < length xs \<Longrightarrow>
   valid (fst (marcar_fuentes p False xs) ! i) =
     (sondeo_ok p (xs ! i) \<and> (\<forall>j<i. \<not> sondeo_ok p (xs ! j)))"
proof (induction xs arbitrary: i)
  case Nil
  then show ?case by simp
next
  case (Cons f fs)
  show ?case
  proof (cases "sondeo_ok p f")
    case True
    have found: "\<And>k. k < length fs \<Longrightarrow> \<not> valid (fst (marcar_fuentes p True fs) ! k)"
    proof -
      fix k assume k: "k < length fs"
      have "map valid (fst (marcar_fuentes p True fs)) ! k = False"
        using k by (simp add: marcar_fuentes_found)
      then show "\<not> valid (fst (marcar_fuentes p True fs) ! k)"
        using k by (simp add: marcar_fuentes_length)
    qed
    show ?thesis
    proof (cases i)
      case 0
      with True show ?thesis
        by (auto simp: sondeo_ok_def Let_def case_prod_beta)
    next
      case (Suc k)
      with Cons.prems have k: "k < length fs" by simp
      from True Suc found [OF k] show ?thesis
        by (auto simp: sondeo_ok_def Let_def case_prod_beta)
    qed
  next
    case False
    show ?thesis
    proof (cases i)
      case 0
      with False show ?thesis
        by (auto simp: sondeo_ok_def Let_def case_prod_beta)
    next
      case (Suc k)
      with Cons.prems have k: "k < length fs" by simp
      have "(\<forall>j<Suc k. \<not> sondeo_ok p ((f # fs) ! j)) = (\<forall>j<k. \<not> sondeo_ok p (fs ! j))"
        using False by (auto simp: less_Suc_eq_0_disj)
      with False Suc Cons.IH [OF k] show ?thesis
        by (auto simp: sondeo_ok_def Let_def case_prod_beta)
    qed
  qed
qed

text \<open>
  C1. After the validator has processed a \<^verbatim>\<open>sources\<close> sequence, the sequence has the
  same length, an entry is flagged valid exactly when its probe succeeds and the probe
  of no earlier entry does (so it is the earliest entry that probes successfully, every
  entry after it is invalid whatever its own probe would say, and all entries are
  invalid when no probe succeeds), and at most one entry is flagged valid.
\<close>

theorem check_sources_first_valid_wins:
  "length (procesar_fuentes p xs) = length xs \<and>
   (\<forall>i<length xs. valid (procesar_fuentes p xs ! i) =
        (sondeo_ok p (xs ! i) \<and> (\<forall>j<i. \<not> sondeo_ok p (xs ! j)))) \<and>
   (\<forall>i<length xs. \<forall>j<length xs.
        valid (procesar_fuentes p xs ! i) \<and> valid (procesar_fuentes p xs ! j) \<longrightarrow> i = j)"
proof -
  have len: "length (procesar_fuentes p xs) = length xs"
    by (simp add: procesar_fuentes_def marcar_fuentes_length)
  have nth: "\<And>i. i < length xs \<Longrightarrow>
      valid (procesar_fuentes p xs ! i) =
        (sondeo_ok p (xs ! i) \<and> (\<forall>j<i. \<not> sondeo_ok p (xs ! j)))"
    by (cases "xs = []") (simp_all add: procesar_fuentes_def marcar_fuentes_valid_nth)
  have uniq: "i = j"
    if "i < length xs" "j < length xs"
      "valid (procesar_fuentes p xs ! i)" "valid (procesar_fuentes p xs ! j)" for i j
  proof (rule ccontr)
    assume "i \<noteq> j"
    then consider "i < j" | "j < i" by linarith
    then show False
      using that nth [of i] nth [of j] by cases auto
  qed
  from len nth uniq show ?thesis by blast
qed

theorem check_sources_first_valid_wins_witness:
  "(1::nat) < length [\<lparr>source = ''a'', valid = True\<rparr>, \<lparr>source = '' b '', valid = False\<rparr>,
        \<lparr>source = ''c'', valid = True\<rparr>] \<and>
   valid (procesar_fuentes (\<lambda>s. if s = ''a'' then Inr 1 else Inr 0)
      [\<lparr>source = ''a'', valid = True\<rparr>, \<lparr>source = '' b '', valid = False\<rparr>,
        \<lparr>source = ''c'', valid = True\<rparr>] ! 1)"
proof -
  let ?p = "\<lambda>s::string. if s = ''a'' then Inr 1 else (Inr 0 :: exn + int)"
  let ?xs = "[\<lparr>source = ''a'', valid = True\<rparr>, \<lparr>source = '' b '', valid = False\<rparr>,
        \<lparr>source = ''c'', valid = True\<rparr>]"
  have l: "(1::nat) < length ?xs" by simp
  have s0: "\<not> sondeo_ok ?p (?xs ! 0)"
    by (simp add: sondeo_ok_def is_valid_source_def strip_def es_espacio_def)
  have s1: "sondeo_ok ?p (?xs ! 1)"
    by (simp add: sondeo_ok_def is_valid_source_def strip_def es_espacio_def)
  from check_sources_first_valid_wins [of ?p ?xs] l
  have "valid (procesar_fuentes ?p ?xs ! 1) =
      (sondeo_ok ?p (?xs ! 1) \<and> (\<forall>j<1. \<not> sondeo_ok ?p (?xs ! j)))"
    by blast
  with s0 s1 l show ?thesis by simp
qed




section \<open>The create and edit forms\<close>





















end
